theory Spec2Isabelle
  imports Main "HOL-Library.Word" "HOL-Library.Sublist"
begin

unbundle bit_operations_syntax

section \<open>JavaScript strings\<close>

text \<open>
  A JavaScript string is a sequence of 16-bit code units. String literals of the source
  are written \<open>js ''...''\<close>; all of them are ASCII.
\<close>

type_synonym jsstring = "16 word list"

definition js :: "string \<Rightarrow> jsstring" where
  "js s = map of_char s"

text \<open>
  \<open>String.prototype.trim\<close> removes leading and trailing WhiteSpace and LineTerminator
  code points: TAB, LF, VT, FF, CR, SP, NBSP, U+1680, U+2000..U+200A, U+2028, U+2029,
  U+202F, U+205F, U+3000 and U+FEFF.
\<close>

definition isWhiteSpace :: "16 word \<Rightarrow> bool" where
  "isWhiteSpace c \<longleftrightarrow>
     c = 0x0009 \<or> c = 0x000A \<or> c = 0x000B \<or> c = 0x000C \<or> c = 0x000D \<or> c = 0x0020 \<or>
     c = 0x00A0 \<or> c = 0x1680 \<or> (0x2000 \<le> c \<and> c \<le> 0x200A) \<or> c = 0x2028 \<or>
     c = 0x2029 \<or> c = 0x202F \<or> c = 0x205F \<or> c = 0x3000 \<or> c = 0xFEFF"

definition trim :: "jsstring \<Rightarrow> jsstring" where
  "trim s = rev (dropWhile isWhiteSpace (rev (dropWhile isWhiteSpace s)))"

text \<open>
  \<open>Number.prototype.toString\<close> on an integer in the range of \<open>Date.now()\<close>
  (and of an array length): the decimal digits, most significant first, with a minus sign
  for a negative number.
\<close>

fun digits10 :: "nat \<Rightarrow> jsstring" where
  "digits10 n =
     (if n < 10 then [of_nat (48 + n)]
      else digits10 (n div 10) @ [of_nat (48 + n mod 10)])"

definition toString :: "int \<Rightarrow> jsstring" where
  "toString i = (if i < 0 then 0x2D # digits10 (nat (- i)) else digits10 (nat i))"

section \<open>Tasks and the application state\<close>

text \<open>
  A task is the object literal built in \<open>addTask\<close>: the properties \<open>id\<close>, \<open>text\<close>,
  \<open>completed\<close> and \<open>createdAt\<close>, in this order.
\<close>

record task =
  task_id :: jsstring
  task_text :: jsstring
  completed :: bool
  createdAt :: jsstring

text \<open>
  What the application reads back from its surroundings: \<open>taskInput.value\<close>, whether
  \<open>taskInput.focus()\<close> was called, and the item \<open>todoTasks\<close> of \<open>localStorage\<close>
  (\<open>None\<close> when the key is absent). \<open>localStorage.setItem\<close> is taken to succeed (no
  storage quota).
\<close>

record page =
  taskInput_value :: jsstring
  taskInput_focused :: bool
  localStorage_todoTasks :: "jsstring option"

text \<open>
  The state of a \<open>TodoApp\<close>: its surroundings and its two fields. The other writes to
  the page are outputs only; they are the functions \<open>updateStats\<close> and
  \<open>getFilteredTasks\<close> of the state.
\<close>

record TodoApp = page +
  tasks :: "task list"
  currentFilter :: jsstring

section \<open>JSON.stringify on a task list\<close>

text \<open>
  \<open>QuoteJSONString\<close>: the string between double quotes; backspace, tab, line feed, form
  feed, carriage return, the double quote and the backslash by their two-character
  escapes; every other code unit below U+0020 and every surrogate that is not half of a
  pair as \<open>\uXXXX\<close> with lower-case hexadecimal digits; everything else as it is.
\<close>

definition hexDigit :: "16 word \<Rightarrow> 16 word" where
  "hexDigit d = (if d < 10 then 0x30 + d else 0x61 + (d - 10))"

definition UnicodeEscape :: "16 word \<Rightarrow> jsstring" where
  "UnicodeEscape c =
     [0x5C, 0x75, hexDigit (drop_bit 12 c AND 0xF), hexDigit (drop_bit 8 c AND 0xF),
      hexDigit (drop_bit 4 c AND 0xF), hexDigit (c AND 0xF)]"

definition isLeadingSurrogate :: "16 word \<Rightarrow> bool" where
  "isLeadingSurrogate c \<longleftrightarrow> 0xD800 \<le> c \<and> c \<le> 0xDBFF"

definition isTrailingSurrogate :: "16 word \<Rightarrow> bool" where
  "isTrailingSurrogate c \<longleftrightarrow> 0xDC00 \<le> c \<and> c \<le> 0xDFFF"

definition quoteUnit :: "16 word \<Rightarrow> jsstring" where
  "quoteUnit c =
     (if c = 0x08 then [0x5C, 0x62]
      else if c = 0x09 then [0x5C, 0x74]
      else if c = 0x0A then [0x5C, 0x6E]
      else if c = 0x0C then [0x5C, 0x66]
      else if c = 0x0D then [0x5C, 0x72]
      else if c = 0x22 then [0x5C, 0x22]
      else if c = 0x5C then [0x5C, 0x5C]
      else if c < 0x20 \<or> isLeadingSurrogate c \<or> isTrailingSurrogate c then UnicodeEscape c
      else [c])"

fun quoteUnits :: "jsstring \<Rightarrow> jsstring" where
  "quoteUnits [] = []"
| "quoteUnits [c] = quoteUnit c"
| "quoteUnits (c # d # cs) =
     (if isLeadingSurrogate c \<and> isTrailingSurrogate d then c # d # quoteUnits cs
      else quoteUnit c @ quoteUnits (d # cs))"

definition QuoteJSONString :: "jsstring \<Rightarrow> jsstring" where
  "QuoteJSONString s = 0x22 # quoteUnits s @ [0x22]"

text \<open>
  \<open>JSON.stringify(this.tasks)\<close> with no indentation: an object is its properties in
  creation order, \<open>"key":value\<close> separated by commas between braces; an array is its
  elements separated by commas between brackets.
\<close>

definition stringify_task :: "task \<Rightarrow> jsstring" where
  "stringify_task t =
     js ''{'' @ QuoteJSONString (js ''id'') @ js '':'' @ QuoteJSONString (task_id t) @
     js '','' @ QuoteJSONString (js ''text'') @ js '':'' @ QuoteJSONString (task_text t) @
     js '','' @ QuoteJSONString (js ''completed'') @ js '':'' @
       (if completed t then js ''true'' else js ''false'') @
     js '','' @ QuoteJSONString (js ''createdAt'') @ js '':'' @ QuoteJSONString (createdAt t) @
     js ''}''"

fun stringify_elements :: "task list \<Rightarrow> jsstring" where
  "stringify_elements [] = []"
| "stringify_elements [t] = stringify_task t"
| "stringify_elements (t # u # ts) = stringify_task t @ js '','' @ stringify_elements (u # ts)"

definition JSON_stringify :: "task list \<Rightarrow> jsstring" where
  "JSON_stringify ts = js ''['' @ stringify_elements ts @ js '']''"

section \<open>JSON.parse\<close>

text \<open>
  \<open>JSON.parse\<close> as ECMA-262 specifies it: the text is read by the JSON grammar, and a
  text outside the grammar is a \<open>SyntaxError\<close>. A number is kept as the decimal it
  denotes, \<open>JNum m e\<close> for \<open>m * 10 ^ e\<close>; the properties of an object are kept in
  the order of their creation.
\<close>

datatype json =
    JNull
  | JBool bool
  | JNum int int
  | JStr jsstring
  | JArr "json list"
  | JObj "(jsstring \<times> json) list"

subsection \<open>Tokens\<close>

datatype token =
    LBRACE | RBRACE | LBRACK | RBRACK | COLON | COMMA
  | STRING jsstring | NUMBER int int | LIT_TRUE | LIT_FALSE | LIT_NULL | BAD

text \<open>
  A string literal: the characters up to the closing double quote. A character is a code
  unit other than the double quote, the backslash and the units below U+0020, or an
  escape: a backslash and one of the double quote, the backslash, the slash and the
  letters \<open>b f n r t\<close>, or a backslash, \<open>u\<close> and four hexadecimal digits of either
  case.
\<close>

definition hexValue :: "16 word \<Rightarrow> 16 word option" where
  "hexValue c =
     (if 0x30 \<le> c \<and> c \<le> 0x39 then Some (c - 0x30)
      else if 0x41 \<le> c \<and> c \<le> 0x46 then Some (c - 0x41 + 10)
      else if 0x61 \<le> c \<and> c \<le> 0x66 then Some (c - 0x61 + 10)
      else None)"

definition hex4 :: "16 word \<Rightarrow> 16 word \<Rightarrow> 16 word \<Rightarrow> 16 word \<Rightarrow> 16 word option" where
  "hex4 h1 h2 h3 h4 =
     (case (hexValue h1, hexValue h2, hexValue h3, hexValue h4) of
        (Some a, Some b, Some c, Some d) \<Rightarrow>
          Some (push_bit 12 a OR push_bit 8 b OR push_bit 4 c OR d)
      | _ \<Rightarrow> None)"

definition unescape :: "16 word \<Rightarrow> 16 word option" where
  "unescape e =
     (if e = 0x22 then Some 0x22
      else if e = 0x5C then Some 0x5C
      else if e = 0x2F then Some 0x2F
      else if e = 0x62 then Some 0x08
      else if e = 0x66 then Some 0x0C
      else if e = 0x6E then Some 0x0A
      else if e = 0x72 then Some 0x0D
      else if e = 0x74 then Some 0x09
      else None)"

definition lex_char :: "jsstring \<Rightarrow> (16 word \<times> jsstring) option" where
  "lex_char cs =
     (case cs of
        [] \<Rightarrow> None
      | c # cs0 \<Rightarrow>
          if c = 0x5C then
            (case cs0 of
               [] \<Rightarrow> None
             | e # cs1 \<Rightarrow>
                 if e = 0x75 then
                   (case cs1 of
                      h1 # h2 # h3 # h4 # cs2 \<Rightarrow>
                        (case hex4 h1 h2 h3 h4 of None \<Rightarrow> None | Some u \<Rightarrow> Some (u, cs2))
                    | _ \<Rightarrow> None)
                 else (case unescape e of None \<Rightarrow> None | Some u \<Rightarrow> Some (u, cs1)))
          else if c = 0x22 \<or> c < 0x20 then None
          else Some (c, cs0))"

lemma lex_char_shorter: "lex_char cs = Some (u, r) \<Longrightarrow> length r < length cs"
  by (auto simp: lex_char_def split: list.splits if_splits option.splits)

function lex_string :: "jsstring \<Rightarrow> jsstring \<Rightarrow> (jsstring \<times> jsstring) option" where
  "lex_string acc [] = None"
| "lex_string acc (c # cs) =
     (if c = 0x22 then Some (rev acc, cs)
      else
        (case lex_char (c # cs) of
           None \<Rightarrow> None
         | Some (u, r) \<Rightarrow> lex_string (u # acc) r))"
  by pat_completeness auto
termination
proof (relation "measure (\<lambda>(acc, cs). length cs)")
  show "wf (measure (\<lambda>(acc, cs). length cs))" by simp
qed (auto dest: lex_char_shorter)

text \<open>
  A number literal: an optional minus sign, the integer part (a single zero, or digits
  that do not start with a zero), an optional fraction (a point and at least one digit)
  and an optional exponent (\<open>e\<close> or \<open>E\<close>, an optional sign and at least one digit).
  Each part takes the longest match.
\<close>

definition isDigit :: "16 word \<Rightarrow> bool" where
  "isDigit c \<longleftrightarrow> 0x30 \<le> c \<and> c \<le> 0x39"

definition digitsValue :: "jsstring \<Rightarrow> int" where
  "digitsValue ds = foldl (\<lambda>n d. 10 * n + uint (d - 0x30)) 0 ds"

definition lex_sign :: "jsstring \<Rightarrow> bool \<times> jsstring" where
  "lex_sign cs = (case cs of [] \<Rightarrow> (False, cs) | c # r \<Rightarrow> if c = 0x2D then (True, r) else (False, cs))"

definition lex_int :: "jsstring \<Rightarrow> jsstring \<times> jsstring" where
  "lex_int cs =
     (case cs of
        [] \<Rightarrow> ([], cs)
      | c # r \<Rightarrow> if c = 0x30 then ([c], r) else (takeWhile isDigit cs, dropWhile isDigit cs))"

definition lex_frac :: "jsstring \<Rightarrow> jsstring \<times> jsstring" where
  "lex_frac cs =
     (case cs of
        [] \<Rightarrow> ([], cs)
      | c # r \<Rightarrow>
          if c = 0x2E \<and> takeWhile isDigit r \<noteq> [] then (takeWhile isDigit r, dropWhile isDigit r)
          else ([], cs))"

definition lex_exp_sign :: "jsstring \<Rightarrow> int \<times> jsstring" where
  "lex_exp_sign cs =
     (case cs of
        [] \<Rightarrow> (1, cs)
      | c # r \<Rightarrow> if c = 0x2B then (1, r) else if c = 0x2D then (- 1, r) else (1, cs))"

definition lex_exp :: "jsstring \<Rightarrow> int \<times> jsstring" where
  "lex_exp cs =
     (case cs of
        [] \<Rightarrow> (0, cs)
      | c # r \<Rightarrow>
          if c = 0x65 \<or> c = 0x45 then
            (case lex_exp_sign r of
               (sg, r1) \<Rightarrow>
                 if takeWhile isDigit r1 = [] then (0, cs)
                 else (sg * digitsValue (takeWhile isDigit r1), dropWhile isDigit r1))
          else (0, cs))"

definition lex_number :: "jsstring \<Rightarrow> ((int \<times> int) \<times> jsstring) option" where
  "lex_number cs =
     (case lex_sign cs of
        (neg, cs1) \<Rightarrow>
          (case lex_int cs1 of
             (ip, cs2) \<Rightarrow>
               if ip = [] then None
               else
                 (case lex_frac cs2 of
                    (fp, cs3) \<Rightarrow>
                      (case lex_exp cs3 of
                         (ex, cs4) \<Rightarrow>
                           Some (((if neg then - 1 else 1) * digitsValue (ip @ fp),
                                  ex - int (length fp)), cs4)))))"

lemma lex_string_shorter: "lex_string acc cs = Some (s, r) \<Longrightarrow> length r < length cs"
proof (induction acc cs rule: lex_string.induct)
  case (1 acc)
  then show ?case by simp
next
  case (2 acc c cs)
  show ?case
  proof (cases "c = 0x22")
    case True
    then show ?thesis using "2.prems" by simp
  next
    case False
    then obtain u r0 where l: "lex_char (c # cs) = Some (u, r0)"
      and k: "lex_string (u # acc) r0 = Some (s, r)"
      using "2.prems" by (auto split: option.splits)
    have "length r < length r0" using "2.IH" [OF False l refl k] .
    moreover have "length r0 < length (c # cs)" using l by (rule lex_char_shorter)
    ultimately show ?thesis by simp
  qed
qed

lemma lex_sign_le: "lex_sign cs = (b, r) \<Longrightarrow> length r \<le> length cs"
  by (auto simp: lex_sign_def split: list.splits if_splits)

lemma lex_int_less: "lex_int cs = (ip, r) \<Longrightarrow> ip \<noteq> [] \<Longrightarrow> length r < length cs"
proof -
  assume a: "lex_int cs = (ip, r)" and b: "ip \<noteq> []"
  have "length (takeWhile isDigit cs) + length (dropWhile isDigit cs) = length cs"
    by (metis length_append takeWhile_dropWhile_id)
  then show ?thesis
    using a b by (auto simp: lex_int_def split: list.splits if_splits)
qed

lemma lex_frac_le: "lex_frac cs = (fp, r) \<Longrightarrow> length r \<le> length cs"
  by (auto simp: lex_frac_def length_dropWhile_le le_SucI split: list.splits if_splits)

lemma lex_exp_sign_le: "lex_exp_sign cs = (sg, r) \<Longrightarrow> length r \<le> length cs"
  by (auto simp: lex_exp_sign_def split: list.splits if_splits)

lemma lex_exp_le: "lex_exp cs = (ex, r) \<Longrightarrow> length r \<le> length cs"
proof -
  assume a: "lex_exp cs = (ex, r)"
  show ?thesis
  proof (cases cs)
    case Nil
    then show ?thesis using a by (simp add: lex_exp_def)
  next
    case (Cons c t)
    obtain sg r1 where s: "lex_exp_sign t = (sg, r1)" by (cases "lex_exp_sign t")
    have "length (dropWhile isDigit r1) \<le> length r1" by (rule length_dropWhile_le)
    moreover have "length r1 \<le> length t" using s by (rule lex_exp_sign_le)
    ultimately show ?thesis
      using a Cons s by (auto simp: lex_exp_def split: if_splits)
  qed
qed

lemma lex_number_shorter: "lex_number cs = Some (v, r) \<Longrightarrow> length r < length cs"
proof -
  assume a: "lex_number cs = Some (v, r)"
  obtain neg cs1 where 1: "lex_sign cs = (neg, cs1)" by (cases "lex_sign cs")
  obtain ip cs2 where 2: "lex_int cs1 = (ip, cs2)" by (cases "lex_int cs1")
  obtain fp cs3 where 3: "lex_frac cs2 = (fp, cs3)" by (cases "lex_frac cs2")
  obtain ex cs4 where 4: "lex_exp cs3 = (ex, cs4)" by (cases "lex_exp cs3")
  have ne: "ip \<noteq> []" and r: "r = cs4"
    using a 1 2 3 4 by (auto simp: lex_number_def split: if_splits)
  have "length cs1 \<le> length cs" using 1 by (rule lex_sign_le)
  moreover have "length cs2 < length cs1" using 2 ne by (rule lex_int_less)
  moreover have "length cs3 \<le> length cs2" using 3 by (rule lex_frac_le)
  moreover have "length cs4 \<le> length cs3" using 4 by (rule lex_exp_le)
  ultimately show ?thesis using r by simp
qed

text \<open>
  The tokens of a text. White space between tokens is tab, line feed, carriage return and
  space. Where no token starts, the list ends with \<open>BAD\<close>, which no text of the grammar
  contains.
\<close>

function lexer :: "jsstring \<Rightarrow> token list" where
  "lexer [] = []"
| "lexer (c # cs) =
     (if c = 0x09 \<or> c = 0x0A \<or> c = 0x0D \<or> c = 0x20 then lexer cs
      else if c = 0x7B then LBRACE # lexer cs
      else if c = 0x7D then RBRACE # lexer cs
      else if c = 0x5B then LBRACK # lexer cs
      else if c = 0x5D then RBRACK # lexer cs
      else if c = 0x3A then COLON # lexer cs
      else if c = 0x2C then COMMA # lexer cs
      else if c = 0x22 then
        (case lex_string [] cs of
           None \<Rightarrow> [BAD]
         | Some (s, r) \<Rightarrow> STRING s # lexer r)
      else if c = 0x2D \<or> isDigit c then
        (case lex_number (c # cs) of
           None \<Rightarrow> [BAD]
         | Some ((m, e), r) \<Rightarrow> NUMBER m e # lexer r)
      else if take 4 (c # cs) = js ''true'' then LIT_TRUE # lexer (drop 3 cs)
      else if take 5 (c # cs) = js ''false'' then LIT_FALSE # lexer (drop 4 cs)
      else if take 4 (c # cs) = js ''null'' then LIT_NULL # lexer (drop 3 cs)
      else [BAD])"
  by pat_completeness auto
termination
proof (relation "measure length")
  show "wf (measure length)" by simp
qed (auto dest: lex_string_shorter lex_number_shorter)

subsection \<open>Values\<close>

text \<open>
  The grammar of values over the tokens, read from left to right with a stack of the
  arrays and objects that are still open. A property whose key is already in the object
  replaces the value and keeps the place of the key.
\<close>

fun set_property :: "jsstring \<Rightarrow> json \<Rightarrow> (jsstring \<times> json) list \<Rightarrow> (jsstring \<times> json) list" where
  "set_property k v [] = [(k, v)]"
| "set_property k v ((k', v') # kvs) =
     (if k' = k then (k', v) # kvs else (k', v') # set_property k v kvs)"

datatype frame =
    InArray "json list"
  | InObject "(jsstring \<times> json) list"
  | InProperty "(jsstring \<times> json) list" jsstring

datatype pmode =
    WantValue | WantValueOrClose | WantKey | WantKeyOrClose | WantColon | WantSeparator
  | Finished json

definition complete :: "json \<Rightarrow> frame list \<Rightarrow> (pmode \<times> frame list) option" where
  "complete v st =
     (case st of
        [] \<Rightarrow> Some (Finished v, [])
      | InArray vs # st' \<Rightarrow> Some (WantSeparator, InArray (vs @ [v]) # st')
      | InProperty kvs k # st' \<Rightarrow> Some (WantSeparator, InObject (set_property k v kvs) # st')
      | InObject kvs # st' \<Rightarrow> None)"

definition close_array :: "frame list \<Rightarrow> (pmode \<times> frame list) option" where
  "close_array st = (case st of InArray vs # st' \<Rightarrow> complete (JArr vs) st' | _ \<Rightarrow> None)"

definition close_object :: "frame list \<Rightarrow> (pmode \<times> frame list) option" where
  "close_object st = (case st of InObject kvs # st' \<Rightarrow> complete (JObj kvs) st' | _ \<Rightarrow> None)"

definition value_step :: "bool \<Rightarrow> frame list \<Rightarrow> token \<Rightarrow> (pmode \<times> frame list) option" where
  "value_step may_close st t =
     (case t of
        STRING s \<Rightarrow> complete (JStr s) st
      | NUMBER m e \<Rightarrow> complete (JNum m e) st
      | LIT_TRUE \<Rightarrow> complete (JBool True) st
      | LIT_FALSE \<Rightarrow> complete (JBool False) st
      | LIT_NULL \<Rightarrow> complete JNull st
      | LBRACK \<Rightarrow> Some (WantValueOrClose, InArray [] # st)
      | LBRACE \<Rightarrow> Some (WantKeyOrClose, InObject [] # st)
      | RBRACK \<Rightarrow> if may_close then close_array st else None
      | _ \<Rightarrow> None)"

definition key_step :: "bool \<Rightarrow> frame list \<Rightarrow> token \<Rightarrow> (pmode \<times> frame list) option" where
  "key_step may_close st t =
     (case t of
        STRING k \<Rightarrow>
          (case st of InObject kvs # st' \<Rightarrow> Some (WantColon, InProperty kvs k # st') | _ \<Rightarrow> None)
      | RBRACE \<Rightarrow> if may_close then close_object st else None
      | _ \<Rightarrow> None)"

definition separator_step :: "frame list \<Rightarrow> token \<Rightarrow> (pmode \<times> frame list) option" where
  "separator_step st t =
     (case t of
        COMMA \<Rightarrow>
          (case st of
             InArray vs # st' \<Rightarrow> Some (WantValue, st)
           | InObject kvs # st' \<Rightarrow> Some (WantKey, st)
           | _ \<Rightarrow> None)
      | RBRACK \<Rightarrow> close_array st
      | RBRACE \<Rightarrow> close_object st
      | _ \<Rightarrow> None)"

definition parse_step :: "pmode \<Rightarrow> frame list \<Rightarrow> token \<Rightarrow> (pmode \<times> frame list) option" where
  "parse_step m st t =
     (case m of
        WantValue \<Rightarrow> value_step False st t
      | WantValueOrClose \<Rightarrow> value_step True st t
      | WantKey \<Rightarrow> key_step False st t
      | WantKeyOrClose \<Rightarrow> key_step True st t
      | WantColon \<Rightarrow> (case t of COLON \<Rightarrow> Some (WantValue, st) | _ \<Rightarrow> None)
      | WantSeparator \<Rightarrow> separator_step st t
      | Finished v \<Rightarrow> None)"

fun parse_tokens :: "pmode \<Rightarrow> frame list \<Rightarrow> token list \<Rightarrow> json option" where
  "parse_tokens m st [] = (case m of Finished v \<Rightarrow> Some v | _ \<Rightarrow> None)"
| "parse_tokens m st (t # ts) =
     (case parse_step m st t of
        None \<Rightarrow> None
      | Some (m', st') \<Rightarrow> parse_tokens m' st' ts)"

datatype js_error = SyntaxError | TypeError

definition JSON_parse :: "jsstring \<Rightarrow> js_error + json" where
  "JSON_parse text =
     (case parse_tokens WantValue [] (lexer text) of
        None \<Rightarrow> Inl SyntaxError
      | Some v \<Rightarrow> Inr v)"

text \<open>
  \<open>ToBoolean\<close>, for the \<open>||\<close> of the constructor: \<open>null\<close>, \<open>false\<close>, the empty string
  and zero are falsy. The Number of a decimal is zero when the decimal is zero or rounds to
  zero, which it does up to \<open>2 ^ - 1075\<close>, half of the least positive Number.
\<close>

fun truthy :: "json \<Rightarrow> bool" where
  "truthy JNull = False"
| "truthy (JBool b) = b"
| "truthy (JNum m e) = (if 0 \<le> e then m \<noteq> 0 else 10 ^ nat (- e) < \<bar>m\<bar> * 2 ^ 1075)"
| "truthy (JStr s) = (s \<noteq> [])"
| "truthy (JArr vs) = True"
| "truthy (JObj kvs) = True"

section \<open>The operations of TodoApp\<close>

definition saveToLocalStorage :: "TodoApp \<Rightarrow> TodoApp" where
  "saveToLocalStorage s = s\<lparr>localStorage_todoTasks := Some (JSON_stringify (tasks s))\<rparr>"

text \<open>
  \<open>addTask()\<close> reads \<open>taskInput.value\<close> from the state. Its two readings of the clock
  are arguments: \<open>now\<close> is \<open>Date.now()\<close>, milliseconds since the epoch, and
  \<open>timeLabel\<close> is what \<open>toLocaleTimeString\<close> returns for the current time.
\<close>

definition addTask :: "int \<Rightarrow> jsstring \<Rightarrow> TodoApp \<Rightarrow> TodoApp" where
  "addTask now timeLabel s =
     (let taskText = trim (taskInput_value s) in
      if taskText = [] then s\<lparr>taskInput_focused := True\<rparr>
      else
        let newTask = \<lparr>task_id = toString now, task_text = taskText, completed = False,
                        createdAt = timeLabel\<rparr>
        in saveToLocalStorage (s\<lparr>tasks := newTask # tasks s, taskInput_value := []\<rparr>))"

text \<open>
  \<open>toggleTask\<close>: \<open>find\<close> returns the first task with the id, an object of the array,
  and the assignment changes that object in place.
\<close>

fun toggle_found :: "jsstring \<Rightarrow> task list \<Rightarrow> task list" where
  "toggle_found taskId [] = []"
| "toggle_found taskId (t # ts) =
     (if task_id t = taskId then t\<lparr>completed := \<not> completed t\<rparr> # ts
      else t # toggle_found taskId ts)"

definition toggleTask :: "jsstring \<Rightarrow> TodoApp \<Rightarrow> TodoApp" where
  "toggleTask taskId s =
     (case find (\<lambda>t. task_id t = taskId) (tasks s) of
        None \<Rightarrow> s
      | Some task \<Rightarrow> saveToLocalStorage (s\<lparr>tasks := toggle_found taskId (tasks s)\<rparr>))"

definition deleteTask :: "jsstring \<Rightarrow> TodoApp \<Rightarrow> TodoApp" where
  "deleteTask taskId s =
     saveToLocalStorage (s\<lparr>tasks := filter (\<lambda>t. task_id t \<noteq> taskId) (tasks s)\<rparr>)"

text \<open>The handler of Ctrl/Cmd + Shift + C.\<close>

definition clearCompleted :: "TodoApp \<Rightarrow> TodoApp" where
  "clearCompleted s =
     saveToLocalStorage (s\<lparr>tasks := filter (\<lambda>task. \<not> completed task) (tasks s)\<rparr>)"

text \<open>The click handler of a filter button: \<open>f\<close> is the button's \<open>data-filter\<close>.\<close>

definition setFilter :: "jsstring \<Rightarrow> TodoApp \<Rightarrow> TodoApp" where
  "setFilter f s = s\<lparr>currentFilter := f\<rparr>"

definition getFilteredTasks :: "TodoApp \<Rightarrow> task list" where
  "getFilteredTasks s =
     (if currentFilter s = js ''active'' then filter (\<lambda>task. \<not> completed task) (tasks s)
      else if currentFilter s = js ''completed'' then filter (\<lambda>task. completed task) (tasks s)
      else tasks s)"

text \<open>
  \<open>updateStats\<close>: its two local constants, and the two texts it writes
  (\<open>totalTasks.textContent\<close> and \<open>completedTasks.textContent\<close>).
\<close>

definition total_count :: "TodoApp \<Rightarrow> nat" where
  "total_count s = length (tasks s)"

definition completed_count :: "TodoApp \<Rightarrow> nat" where
  "completed_count s = length (filter (\<lambda>task. completed task) (tasks s))"

definition updateStats :: "TodoApp \<Rightarrow> jsstring \<times> jsstring" where
  "updateStats s =
     (toString (int (total_count s)) @ js '' '' @
        (if total_count s = 1 then js ''task'' else js ''tasks''),
      toString (int (completed_count s)) @ js '' completed'')"

section \<open>The constructor\<close>

text \<open>
  A parsed value is a task of the model when it is an object with exactly the properties
  \<open>id\<close>, \<open>text\<close>, \<open>completed\<close> and \<open>createdAt\<close>, in this order, a boolean for
  \<open>completed\<close> and strings for the others: the objects \<open>addTask\<close> builds and
  \<open>saveToLocalStorage\<close> writes. \<open>task_json\<close> is the object of a task.
\<close>

fun task_of_values :: "json list \<Rightarrow> task option" where
  "task_of_values [JStr i, JStr t, JBool c, JStr a] =
     Some \<lparr>task_id = i, task_text = t, completed = c, createdAt = a\<rparr>"
| "task_of_values vs = None"

definition task_of_json :: "json \<Rightarrow> task option" where
  "task_of_json v =
     (case v of
        JObj kvs \<Rightarrow>
          if map fst kvs = [js ''id'', js ''text'', js ''completed'', js ''createdAt'']
          then task_of_values (map snd kvs) else None
      | _ \<Rightarrow> None)"

definition task_json :: "task \<Rightarrow> json" where
  "task_json t =
     JObj [(js ''id'', JStr (task_id t)), (js ''text'', JStr (task_text t)),
           (js ''completed'', JBool (completed t)), (js ''createdAt'', JStr (createdAt t))]"

text \<open>
  \<open>new TodoApp()\<close> on a page: the assignments to \<open>this.tasks\<close> and
  \<open>this.currentFilter\<close> and the first \<open>render()\<close> (\<open>initializeElements\<close> and
  \<open>attachEventListeners\<close> change neither field). \<open>localStorage.getItem\<close> returns \<open>null\<close> for an absent
  key, and \<open>JSON.parse\<close> reads its argument as a string, \<open>null\<close> as the text \<open>null\<close>.
  The constructor ends in one of three ways:
  \<^item> \<open>Throws e\<close>: it throws. \<open>JSON.parse\<close> throws a \<open>SyntaxError\<close>; and when
    \<open>this.tasks\<close> is a truthy value that is not an array, the first \<open>render()\<close> throws a
    \<open>TypeError\<close> in \<open>updateStats\<close>, where \<open>this.tasks.filter\<close> is not a function.
  \<^item> \<open>Ready s\<close>: it returns, and \<open>s\<close> is the state of the application.
  \<^item> \<open>Foreign vs\<close>: \<open>this.tasks\<close> is the array \<open>vs\<close>, which has an element that is not a
    task of the model. The model does not follow the constructor beyond this assignment.
\<close>

datatype startup = Throws js_error | Ready TodoApp | Foreign "json list"

definition constructor :: "page \<Rightarrow> startup" where
  "constructor p =
     (case JSON_parse (case localStorage_todoTasks p of None \<Rightarrow> js ''null'' | Some item \<Rightarrow> item) of
        Inl e \<Rightarrow> Throws e
      | Inr v \<Rightarrow>
          (case (if truthy v then v else JArr []) of
             JArr vs \<Rightarrow>
               (case those (map task_of_json vs) of
                  Some ts \<Rightarrow>
                    Ready \<lparr>taskInput_value = taskInput_value p,
                           taskInput_focused = taskInput_focused p,
                           localStorage_todoTasks = localStorage_todoTasks p,
                           tasks = ts, currentFilter = js ''all''\<rparr>
                | None \<Rightarrow> Foreign vs)
           | _ \<Rightarrow> Throws TypeError))"

subsection \<open>The tokens of a stored task list\<close>

text \<open>
  The tokens of \<open>stringify_task t\<close> and of \<open>stringify_elements ts\<close>, for the proof
  that the constructor reads back what \<open>saveToLocalStorage\<close> wrote.
\<close>

definition task_tokens :: "task \<Rightarrow> token list" where
  "task_tokens t =
     [LBRACE, STRING (js ''id''), COLON, STRING (task_id t), COMMA,
      STRING (js ''text''), COLON, STRING (task_text t), COMMA,
      STRING (js ''completed''), COLON, (if completed t then LIT_TRUE else LIT_FALSE), COMMA,
      STRING (js ''createdAt''), COLON, STRING (createdAt t), RBRACE]"

fun elements_tokens :: "task list \<Rightarrow> token list" where
  "elements_tokens [] = []"
| "elements_tokens [t] = task_tokens t"
| "elements_tokens (t # u # ts) = task_tokens t @ COMMA # elements_tokens (u # ts)"

section \<open>Example states\<close>

text \<open>Concrete states on which the theorems below are evaluated.\<close>

definition demo :: TodoApp where
  "demo = \<lparr>taskInput_value = js '' Buy milk '', taskInput_focused = False,
     localStorage_todoTasks = None,
     tasks = [\<lparr>task_id = js ''7'', task_text = js ''x'', completed = True, createdAt = js ''09:00''\<rparr>],
     currentFilter = js ''all''\<rparr>"

definition typed_again :: TodoApp where
  "typed_again = (addTask 1700000000000 (js ''10:30'') demo)\<lparr>taskInput_value := js ''Call Bob''\<rparr>"

definition blank_input :: TodoApp where
  "blank_input = demo\<lparr>taskInput_value := js ''   ''\<rparr>"

definition twins :: TodoApp where
  "twins = demo\<lparr>tasks :=
     [\<lparr>task_id = js ''9'', task_text = js ''a'', completed = False, createdAt = js ''09:01''\<rparr>,
      \<lparr>task_id = js ''7'', task_text = js ''b'', completed = False, createdAt = js ''09:00''\<rparr>,
      \<lparr>task_id = js ''7'', task_text = js ''c'', completed = False, createdAt = js ''09:00''\<rparr>]\<rparr>"

definition mixed :: TodoApp where
  "mixed = demo\<lparr>tasks :=
     [\<lparr>task_id = js ''9'', task_text = js ''a'', completed = False, createdAt = js ''09:02''\<rparr>,
      \<lparr>task_id = js ''8'', task_text = js ''b'', completed = True, createdAt = js ''09:01''\<rparr>,
      \<lparr>task_id = js ''7'', task_text = js ''c'', completed = False, createdAt = js ''09:00''\<rparr>]\<rparr>"

definition added :: TodoApp where
  "added = addTask 1700000000000 (js ''10:30'') demo"

definition page_with :: "jsstring option \<Rightarrow> page" where
  "page_with item = \<lparr>taskInput_value = [], taskInput_focused = False, localStorage_todoTasks = item\<rparr>"

section \<open>Auxiliary facts\<close>

lemma toggle_found_ids: "map task_id (toggle_found i ts) = map task_id ts"
  by (induction ts) auto

lemma toggle_found_fields:
  "map (\<lambda>t. (task_id t, task_text t, createdAt t)) (toggle_found i ts) =
   map (\<lambda>t. (task_id t, task_text t, createdAt t)) ts"
  by (induction ts) auto

lemma toggle_found_first:
  "\<forall>x\<in>set xs. task_id x \<noteq> task_id t \<Longrightarrow>
   toggle_found (task_id t) (xs @ t # ys) = xs @ t\<lparr>completed := \<not> completed t\<rparr> # ys"
  by (induction xs) auto

lemma find_absent: "i \<notin> task_id ` set ts \<Longrightarrow> find (\<lambda>t. task_id t = i) ts = None"
  by (induction ts) auto

lemma find_present: "i \<in> task_id ` set ts \<Longrightarrow> \<exists>t. find (\<lambda>t. task_id t = i) ts = Some t"
  by (induction ts) auto

lemma toString_1700000000000: "toString 1700000000000 = js ''1700000000000''"
  by (simp add: toString_def js_def)

lemma trim_demo: "trim (taskInput_value demo) = js ''Buy milk''"
  by (simp add: demo_def trim_def js_def isWhiteSpace_def)

lemma tasks_added:
  "tasks added =
     [\<lparr>task_id = js ''1700000000000'', task_text = js ''Buy milk'', completed = False, createdAt = js ''10:30''\<rparr>,
      \<lparr>task_id = js ''7'', task_text = js ''x'', completed = True, createdAt = js ''09:00''\<rparr>]"
  by (simp add: added_def addTask_def Let_def saveToLocalStorage_def trim_demo
      toString_1700000000000) (simp add: demo_def js_def)

lemma input_added: "taskInput_value added = []"
  by (simp add: added_def addTask_def Let_def saveToLocalStorage_def trim_demo) (simp add: js_def)

subsection \<open>Reading back a quoted string\<close>

lemma nibble_less: "(x AND 0xF :: 16 word) < 16"
proof -
  have "x AND 0xF \<le> (0xF :: 16 word)" by (rule word_and_le1)
  then show ?thesis by (simp add: word_le_nat_alt word_less_nat_alt)
qed

lemma hexValue_hexDigit: "d < 16 \<Longrightarrow> hexValue (hexDigit d) = Some d"
  unfolding hexValue_def hexDigit_def
  by (auto simp: word_le_nat_alt word_less_nat_alt unat_sub_if' unat_word_ariths not_less not_le)

lemma F_mask: "(0xF :: 16 word) = mask 4"
  by (simp add: mask_eq_exp_minus_1)

lemma nibbles_join:
  "push_bit 12 (drop_bit 12 c AND 0xF) OR push_bit 8 (drop_bit 8 c AND 0xF) OR
   push_bit 4 (drop_bit 4 c AND 0xF) OR (c AND 0xF) = (c :: 16 word)"
  unfolding F_mask
proof (rule bit_word_eqI)
  fix n :: nat
  assume "n < LENGTH(16)"
  then have n: "n < 16" by simp
  consider "n < 4" | "4 \<le> n" "n < 8" | "8 \<le> n" "n < 12" | "12 \<le> n"
    by linarith
  then show "bit (push_bit 12 (drop_bit 12 c AND mask 4) OR push_bit 8 (drop_bit 8 c AND mask 4) OR
      push_bit 4 (drop_bit 4 c AND mask 4) OR (c AND mask 4)) n = bit c n"
    using n by cases (auto simp: bit_simps)
qed

lemma hex4_UnicodeEscape:
  "UnicodeEscape c = [0x5C, 0x75, h1, h2, h3, h4] \<Longrightarrow> hex4 h1 h2 h3 h4 = Some c"
proof -
  assume u: "UnicodeEscape c = [0x5C, 0x75, h1, h2, h3, h4]"
  have v1: "hexValue h1 = Some (drop_bit 12 c AND 0xF)"
    using u by (auto simp: UnicodeEscape_def hexValue_hexDigit nibble_less)
  have v2: "hexValue h2 = Some (drop_bit 8 c AND 0xF)"
    using u by (auto simp: UnicodeEscape_def hexValue_hexDigit nibble_less)
  have v3: "hexValue h3 = Some (drop_bit 4 c AND 0xF)"
    using u by (auto simp: UnicodeEscape_def hexValue_hexDigit nibble_less)
  have v4: "hexValue h4 = Some (c AND 0xF)"
    using u by (auto simp: UnicodeEscape_def hexValue_hexDigit nibble_less)
  show ?thesis
    unfolding hex4_def by (simp only: v1 v2 v3 v4 prod.case option.case nibbles_join)
qed

lemma lex_char_UnicodeEscape: "lex_char (UnicodeEscape c @ xs) = Some (c, xs)"
proof -
  obtain h1 h2 h3 h4 where u: "UnicodeEscape c = [0x5C, 0x75, h1, h2, h3, h4]"
    by (simp add: UnicodeEscape_def)
  have "hex4 h1 h2 h3 h4 = Some c" using u by (rule hex4_UnicodeEscape)
  then show ?thesis by (simp add: u lex_char_def)
qed

lemma lex_char_plain:
  "c \<noteq> 0x22 \<Longrightarrow> c \<noteq> 0x5C \<Longrightarrow> \<not> c < 0x20 \<Longrightarrow> lex_char (c # xs) = Some (c, xs)"
  by (simp add: lex_char_def)

lemma lex_char_quoteUnit: "lex_char (quoteUnit c @ xs) = Some (c, xs)"
proof -
  consider "c = 0x08" | "c = 0x09" | "c = 0x0A" | "c = 0x0C" | "c = 0x0D" | "c = 0x22" | "c = 0x5C"
    | "c \<notin> {0x08, 0x09, 0x0A, 0x0C, 0x0D, 0x22, 0x5C}"
      "c < 0x20 \<or> isLeadingSurrogate c \<or> isTrailingSurrogate c"
    | "c \<notin> {0x08, 0x09, 0x0A, 0x0C, 0x0D, 0x22, 0x5C}"
      "\<not> (c < 0x20 \<or> isLeadingSurrogate c \<or> isTrailingSurrogate c)"
    by blast
  then show ?thesis
  proof cases
    case 8
    then have "quoteUnit c = UnicodeEscape c" by (simp add: quoteUnit_def)
    then show ?thesis by (simp add: lex_char_UnicodeEscape)
  next
    case 9
    then have "quoteUnit c = [c]" by (simp add: quoteUnit_def)
    then show ?thesis using 9 by (simp add: lex_char_plain)
  qed (simp_all add: quoteUnit_def lex_char_def unescape_def)
qed

lemma quoteUnit_head: "\<exists>h t. quoteUnit c = h # t \<and> h \<noteq> 0x22"
  by (simp add: quoteUnit_def UnicodeEscape_def)

lemma lex_string_quoteUnit: "lex_string acc (quoteUnit c @ xs) = lex_string (c # acc) xs"
proof -
  obtain h t where q: "quoteUnit c = h # t" and h: "h \<noteq> 0x22"
    using quoteUnit_head by blast
  have "lex_char (h # t @ xs) = Some (c, xs)"
    using lex_char_quoteUnit [of c xs] by (simp add: q)
  then show ?thesis using h by (simp add: q)
qed

lemma surrogate_plain:
  "isLeadingSurrogate c \<or> isTrailingSurrogate c \<Longrightarrow> c \<noteq> 0x22 \<and> c \<noteq> 0x5C \<and> \<not> c < 0x20"
  by (auto simp: isLeadingSurrogate_def isTrailingSurrogate_def word_le_nat_alt word_less_nat_alt)

lemma lex_string_surrogate:
  "isLeadingSurrogate c \<or> isTrailingSurrogate c \<Longrightarrow> lex_string acc (c # xs) = lex_string (c # acc) xs"
  using surrogate_plain [of c] by (simp add: lex_char_plain)

lemma lex_string_quoteUnits:
  "lex_string acc (quoteUnits s @ 0x22 # rest) = Some (rev acc @ s, rest)"
proof (induction s arbitrary: acc rule: quoteUnits.induct)
  case 1
  show ?case by simp
next
  case (2 c)
  show ?case by (simp add: lex_string_quoteUnit)
next
  case (3 c d cs)
  show ?case
  proof (cases "isLeadingSurrogate c \<and> isTrailingSurrogate d")
    case True
    have q: "quoteUnits (c # d # cs) @ 0x22 # rest = c # d # quoteUnits cs @ 0x22 # rest"
      using True by simp
    have "lex_string acc (c # d # quoteUnits cs @ 0x22 # rest) =
          lex_string (c # acc) (d # quoteUnits cs @ 0x22 # rest)"
      by (rule lex_string_surrogate) (simp add: True)
    also have "\<dots> = lex_string (d # c # acc) (quoteUnits cs @ 0x22 # rest)"
      by (rule lex_string_surrogate) (simp add: True)
    also have "\<dots> = Some (rev (d # c # acc) @ cs, rest)"
      using True by (rule "3.IH"(1))
    finally have "lex_string acc (c # d # quoteUnits cs @ 0x22 # rest) =
          Some (rev acc @ c # d # cs, rest)"
      by simp
    then show ?thesis by (simp only: q)
  next
    case False
    have q: "quoteUnits (c # d # cs) @ 0x22 # rest =
             quoteUnit c @ (quoteUnits (d # cs) @ 0x22 # rest)"
      using False by auto
    have "lex_string acc (quoteUnit c @ (quoteUnits (d # cs) @ 0x22 # rest)) =
          lex_string (c # acc) (quoteUnits (d # cs) @ 0x22 # rest)"
      by (rule lex_string_quoteUnit)
    also have "\<dots> = Some (rev (c # acc) @ d # cs, rest)"
      using False by (rule "3.IH"(2))
    finally have "lex_string acc (quoteUnit c @ (quoteUnits (d # cs) @ 0x22 # rest)) =
          Some (rev acc @ c # d # cs, rest)"
      by simp
    then show ?thesis by (simp only: q)
  qed
qed

lemma lexer_QuoteJSONString: "lexer (QuoteJSONString s @ rest) = STRING s # lexer rest"
  by (simp add: QuoteJSONString_def lex_string_quoteUnits)

subsection \<open>Reading back a stored task list\<close>

lemma lexer_punctuation:
  "lexer (js ''{'' @ r) = LBRACE # lexer r"
  "lexer (js ''}'' @ r) = RBRACE # lexer r"
  "lexer (js ''['' @ r) = LBRACK # lexer r"
  "lexer (js '']'' @ r) = RBRACK # lexer r"
  "lexer (js '':'' @ r) = COLON # lexer r"
  "lexer (js '','' @ r) = COMMA # lexer r"
  by (simp_all add: js_def)

lemma lexer_literals:
  "lexer (js ''true'' @ r) = LIT_TRUE # lexer r"
  "lexer (js ''false'' @ r) = LIT_FALSE # lexer r"
  by (simp_all add: js_def isDigit_def)

lemma lexer_task: "lexer (stringify_task t @ r) = task_tokens t @ lexer r"
  by (simp add: stringify_task_def task_tokens_def lexer_punctuation lexer_literals
      lexer_QuoteJSONString del: lexer.simps)

lemma lexer_elements: "lexer (stringify_elements ts @ r) = elements_tokens ts @ lexer r"
  by (induction ts rule: stringify_elements.induct)
     (simp_all add: lexer_task lexer_punctuation del: lexer.simps)

lemma lexer_JSON_stringify:
  "lexer (JSON_stringify ts) = LBRACK # elements_tokens ts @ [RBRACK]"
proof -
  have "lexer (js '']'' @ []) = [RBRACK]"
    by (simp only: lexer_punctuation lexer.simps)
  then show ?thesis
    by (simp add: JSON_stringify_def lexer_punctuation lexer_elements del: lexer.simps)
qed

lemma key_names_distinct:
  "js ''id'' \<noteq> js ''text''" "js ''id'' \<noteq> js ''completed''" "js ''id'' \<noteq> js ''createdAt''"
  "js ''text'' \<noteq> js ''completed''" "js ''text'' \<noteq> js ''createdAt''"
  "js ''completed'' \<noteq> js ''createdAt''"
  by (simp_all add: js_def)

lemma set_property_task:
  "set_property (js ''createdAt'') d
     (set_property (js ''completed'') c
        (set_property (js ''text'') b (set_property (js ''id'') a []))) =
   [(js ''id'', a), (js ''text'', b), (js ''completed'', c), (js ''createdAt'', d)]"
  using key_names_distinct by simp

lemma parse_task:
  assumes "m = WantValue \<or> m = WantValueOrClose"
  shows "parse_tokens m (InArray vs # st) (task_tokens t @ rest) =
         parse_tokens WantSeparator (InArray (vs @ [task_json t]) # st) rest"
  using assms key_names_distinct
  by (auto simp: task_tokens_def task_json_def parse_step_def value_step_def key_step_def
      separator_step_def complete_def close_object_def)

lemma parse_elements:
  assumes "m = WantValue \<or> m = WantValueOrClose" and "ts \<noteq> []"
  shows "parse_tokens m (InArray vs # st) (elements_tokens ts @ rest) =
         parse_tokens WantSeparator (InArray (vs @ map task_json ts) # st) rest"
  using assms
proof (induction ts arbitrary: m vs rule: elements_tokens.induct)
  case 1
  then show ?case by simp
next
  case (2 t)
  then show ?case by (simp add: parse_task)
next
  case (3 t u ts)
  have "parse_tokens m (InArray vs # st) (task_tokens t @ COMMA # elements_tokens (u # ts) @ rest) =
        parse_tokens WantSeparator (InArray (vs @ [task_json t]) # st)
          (COMMA # elements_tokens (u # ts) @ rest)"
    using "3.prems"(1) by (rule parse_task)
  also have "\<dots> = parse_tokens WantValue (InArray (vs @ [task_json t]) # st)
          (elements_tokens (u # ts) @ rest)"
    by (simp add: parse_step_def separator_step_def)
  also have "\<dots> = parse_tokens WantSeparator
          (InArray ((vs @ [task_json t]) @ map task_json (u # ts)) # st) rest"
    by (rule "3.IH") simp_all
  finally show ?case by simp
qed

lemma parse_array:
  "parse_tokens WantValue [] (LBRACK # elements_tokens ts @ [RBRACK]) = Some (JArr (map task_json ts))"
proof (cases "ts = []")
  case True
  then show ?thesis
    by (simp add: parse_step_def value_step_def close_array_def complete_def)
next
  case False
  have "parse_tokens WantValue [] (LBRACK # elements_tokens ts @ [RBRACK]) =
        parse_tokens WantValueOrClose [InArray []] (elements_tokens ts @ [RBRACK])"
    by (simp add: parse_step_def value_step_def)
  also have "\<dots> = parse_tokens WantSeparator [InArray ([] @ map task_json ts)] [RBRACK]"
    using False by (intro parse_elements) simp_all
  also have "\<dots> = Some (JArr (map task_json ts))"
    by (simp add: parse_step_def separator_step_def close_array_def complete_def)
  finally show ?thesis .
qed

lemma JSON_parse_stringify: "JSON_parse (JSON_stringify ts) = Inr (JArr (map task_json ts))"
  by (simp only: JSON_parse_def lexer_JSON_stringify parse_array option.case)

lemma task_of_json_task_json: "task_of_json (task_json t) = Some t"
  by (simp add: task_of_json_def task_json_def)

lemma those_tasks: "those (map (task_of_json \<circ> task_json) ts) = Some ts"
  by (induction ts) (simp_all add: task_of_json_task_json)

lemma JSON_parse_null: "JSON_parse (js ''null'') = Inr JNull"
  by (simp add: JSON_parse_def js_def isDigit_def parse_step_def value_step_def complete_def)

section \<open>The claims\<close>

text \<open>
  C1: when the item \<open>todoTasks\<close> is absent, or holds a JSON text of a falsy value
  (\<open>null\<close>, \<open>false\<close>, zero or the empty string), the constructor returns with an empty
  task list. When the item is not a JSON text, the constructor throws the \<open>SyntaxError\<close>
  of \<open>JSON.parse\<close>: nothing catches it (the counterexample, which also shows the
  \<open>TypeError\<close> for the text of an object).
\<close>

theorem constructor_storage:
  "(localStorage_todoTasks p = None \<longrightarrow>
      constructor p =
        Ready \<lparr>taskInput_value = taskInput_value p, taskInput_focused = taskInput_focused p,
               localStorage_todoTasks = None, tasks = [], currentFilter = js ''all''\<rparr>)
   \<and> (localStorage_todoTasks p = Some item \<and> JSON_parse item = Inr v \<and> \<not> truthy v \<longrightarrow>
      constructor p =
        Ready \<lparr>taskInput_value = taskInput_value p, taskInput_focused = taskInput_focused p,
               localStorage_todoTasks = Some item, tasks = [], currentFilter = js ''all''\<rparr>)
   \<and> (localStorage_todoTasks p = Some item \<and> JSON_parse item = Inl e \<longrightarrow>
      constructor p = Throws e)"
  by (simp add: constructor_def JSON_parse_null)

theorem constructor_storage_witness:
  "constructor (page_with None) =
     Ready \<lparr>taskInput_value = [], taskInput_focused = False, localStorage_todoTasks = None,
            tasks = [], currentFilter = js ''all''\<rparr>
   \<and> JSON_parse (js ''0.0'') = Inr (JNum 0 (- 1)) \<and> \<not> truthy (JNum 0 (- 1))
   \<and> constructor (page_with (Some (js ''0.0''))) =
     Ready \<lparr>taskInput_value = [], taskInput_focused = False,
            localStorage_todoTasks = Some (js ''0.0''), tasks = [], currentFilter = js ''all''\<rparr>
   \<and> JSON_parse (js ''[{'') = Inl SyntaxError
   \<and> constructor (page_with (Some (js ''[{''))) = Throws SyntaxError"
proof -
  have a: "localStorage_todoTasks (page_with None) = None"
    by (simp add: page_with_def)
  have b: "JSON_parse (js ''0.0'') = Inr (JNum 0 (- 1))"
    by (simp add: JSON_parse_def js_def isDigit_def lex_number_def lex_sign_def lex_int_def
        lex_frac_def lex_exp_def digitsValue_def parse_step_def value_step_def complete_def)
  have c: "\<not> truthy (JNum 0 (- 1))"
    by simp
  have d: "JSON_parse (js ''[{'') = Inl SyntaxError"
    by (simp add: JSON_parse_def js_def isDigit_def parse_step_def value_step_def)
  have 1: "constructor (page_with None) =
     Ready \<lparr>taskInput_value = [], taskInput_focused = False, localStorage_todoTasks = None,
            tasks = [], currentFilter = js ''all''\<rparr>"
    using a constructor_storage [of "page_with None"] by (simp add: page_with_def)
  have 2: "constructor (page_with (Some (js ''0.0''))) =
     Ready \<lparr>taskInput_value = [], taskInput_focused = False,
            localStorage_todoTasks = Some (js ''0.0''), tasks = [], currentFilter = js ''all''\<rparr>"
    using b c constructor_storage [of "page_with (Some (js ''0.0''))" "js ''0.0''" "JNum 0 (- 1)"]
    by (simp add: page_with_def)
  have 3: "constructor (page_with (Some (js ''[{''))) = Throws SyntaxError"
    using d constructor_storage [of "page_with (Some (js ''[{''))" "js ''[{''" _ SyntaxError]
    by (simp add: page_with_def)
  show ?thesis using 1 2 3 b c d by blast
qed

theorem constructor_throws_counterexample:
  "constructor (page_with (Some (js ''[{''))) = Throws SyntaxError
   \<and> constructor (page_with (Some (js ''{}''))) = Throws TypeError"
  by (simp add: constructor_def page_with_def JSON_parse_def js_def isDigit_def parse_step_def
      value_step_def key_step_def close_object_def complete_def)

text \<open>
  C2: the operations other than \<open>addTask\<close> keep the task ids distinct, and
  \<open>addTask\<close> keeps them distinct when the decimal string of \<open>Date.now()\<close> is not yet an id
  of the list. The id is that string and nothing compares it with the ids in the list, so a
  second \<open>addTask\<close> within the same millisecond repeats the id (the counterexample).
\<close>

theorem ids_distinct_preserved:
  assumes "distinct (map task_id (tasks s))"
  shows "distinct (map task_id (tasks (toggleTask taskId s)))
         \<and> distinct (map task_id (tasks (deleteTask taskId s)))
         \<and> distinct (map task_id (tasks (clearCompleted s)))
         \<and> distinct (map task_id (tasks (setFilter f s)))
         \<and> (toString now \<notin> set (map task_id (tasks s)) \<longrightarrow>
              distinct (map task_id (tasks (addTask now timeLabel s))))"
proof -
  have 1: "distinct (map task_id (tasks (toggleTask taskId s)))"
    using assms
    by (simp add: toggleTask_def saveToLocalStorage_def toggle_found_ids split: option.split)
  have 2: "distinct (map task_id (tasks (deleteTask taskId s)))"
    using assms by (simp add: deleteTask_def saveToLocalStorage_def distinct_map_filter)
  have 3: "distinct (map task_id (tasks (clearCompleted s)))"
    using assms by (simp add: clearCompleted_def saveToLocalStorage_def distinct_map_filter)
  have 4: "distinct (map task_id (tasks (setFilter f s)))"
    using assms by (simp add: setFilter_def)
  have 5: "toString now \<notin> set (map task_id (tasks s)) \<longrightarrow>
              distinct (map task_id (tasks (addTask now timeLabel s)))"
    using assms by (simp add: addTask_def Let_def saveToLocalStorage_def)
  show ?thesis using 1 2 3 4 5 by blast
qed

theorem ids_distinct_preserved_witness:
  "distinct (map task_id (tasks demo))
   \<and> toString 1700000000000 \<notin> set (map task_id (tasks demo))
   \<and> distinct (map task_id (tasks (toggleTask (js ''7'') demo)))
   \<and> distinct (map task_id (tasks (deleteTask (js ''7'') demo)))
   \<and> distinct (map task_id (tasks (clearCompleted demo)))
   \<and> distinct (map task_id (tasks (setFilter (js ''active'') demo)))
   \<and> distinct (map task_id (tasks (addTask 1700000000000 (js ''10:30'') demo)))"
proof -
  have d: "distinct (map task_id (tasks demo))"
    by (simp add: demo_def)
  have n: "toString 1700000000000 \<notin> set (map task_id (tasks demo))"
    by (simp add: toString_1700000000000) (simp add: demo_def js_def)
  show ?thesis
    using d n
      ids_distinct_preserved [OF d, of "js ''7''" "js ''active''" 1700000000000 "js ''10:30''"]
    by blast
qed

theorem addTask_same_millisecond_counterexample:
  "distinct (map task_id (tasks typed_again))
   \<and> \<not> distinct (map task_id (tasks (addTask 1700000000000 (js ''10:30'') typed_again)))"
proof -
  have t: "tasks typed_again =
     [\<lparr>task_id = js ''1700000000000'', task_text = js ''Buy milk'', completed = False, createdAt = js ''10:30''\<rparr>,
      \<lparr>task_id = js ''7'', task_text = js ''x'', completed = True, createdAt = js ''09:00''\<rparr>]"
    by (simp add: typed_again_def addTask_def Let_def saveToLocalStorage_def trim_demo
        toString_1700000000000) (simp add: demo_def js_def)
  have v: "trim (taskInput_value typed_again) \<noteq> []"
    by (simp add: typed_again_def trim_def js_def isWhiteSpace_def)
  have "tasks (addTask 1700000000000 (js ''10:30'') typed_again) =
      \<lparr>task_id = js ''1700000000000'', task_text = trim (taskInput_value typed_again),
        completed = False, createdAt = js ''10:30''\<rparr> # tasks typed_again"
    using v by (simp add: addTask_def Let_def saveToLocalStorage_def toString_1700000000000)
  then show ?thesis
    by (simp add: t) (simp add: js_def)
qed

text \<open>
  C3: when the trimmed input is not empty, \<open>addTask\<close> puts the new task, with
  \<open>completed = False\<close>, in front of the unchanged list of the tasks stored before, and the
  total count grows by one.
\<close>

theorem addTask_prepends:
  assumes "trim (taskInput_value s) \<noteq> []"
  shows "tasks (addTask now timeLabel s) =
           \<lparr>task_id = toString now, task_text = trim (taskInput_value s), completed = False,
            createdAt = timeLabel\<rparr> # tasks s
         \<and> total_count (addTask now timeLabel s) = total_count s + 1"
  using assms by (simp add: addTask_def Let_def saveToLocalStorage_def total_count_def)

theorem addTask_prepends_witness:
  "trim (taskInput_value demo) \<noteq> [] \<and>
   tasks (addTask 1700000000000 (js ''10:30'') demo) =
     [\<lparr>task_id = js ''1700000000000'', task_text = js ''Buy milk'', completed = False, createdAt = js ''10:30''\<rparr>,
      \<lparr>task_id = js ''7'', task_text = js ''x'', completed = True, createdAt = js ''09:00''\<rparr>]
   \<and> total_count (addTask 1700000000000 (js ''10:30'') demo) = 2"
proof -
  have h: "trim (taskInput_value demo) \<noteq> []"
    by (simp add: demo_def trim_def js_def isWhiteSpace_def)
  have t: "trim (taskInput_value demo) = js ''Buy milk''"
    by (simp add: demo_def trim_def js_def isWhiteSpace_def)
  have n: "toString 1700000000000 = js ''1700000000000''"
    by (simp add: toString_def js_def)
  show ?thesis
    using h addTask_prepends [OF h, of 1700000000000 "js ''10:30''"]
    by (simp add: t n) (simp add: demo_def total_count_def)
qed

text \<open>
  C4: the text of the new task is the trimmed input (the counterexample: leading and
  trailing blanks of the input are not stored) and nothing else is done to it; with a
  blank input \<open>addTask\<close> leaves the list as it is. In every state, whatever the input
  holds, no operation changes the text of a stored task: \<open>toggleTask\<close> keeps the id,
  the text and the time label of every task in place, \<open>deleteTask\<close> and the clearing of
  completed tasks keep the other tasks as they are and in order, and \<open>setFilter\<close> leaves
  the list as it is.
\<close>

theorem text_stored_trimmed:
  "tasks (addTask now timeLabel s) =
     (if trim (taskInput_value s) = [] then tasks s
      else \<lparr>task_id = toString now, task_text = trim (taskInput_value s), completed = False,
             createdAt = timeLabel\<rparr> # tasks s)
   \<and> map (\<lambda>t. (task_id t, task_text t, createdAt t)) (tasks (toggleTask taskId s)) =
       map (\<lambda>t. (task_id t, task_text t, createdAt t)) (tasks s)
   \<and> tasks (deleteTask taskId s) = filter (\<lambda>t. task_id t \<noteq> taskId) (tasks s)
   \<and> subseq (tasks (deleteTask taskId s)) (tasks s)
   \<and> tasks (clearCompleted s) = filter (\<lambda>t. \<not> completed t) (tasks s)
   \<and> subseq (tasks (clearCompleted s)) (tasks s)
   \<and> tasks (setFilter f s) = tasks s"
proof -
  have 1: "tasks (addTask now timeLabel s) =
     (if trim (taskInput_value s) = [] then tasks s
      else \<lparr>task_id = toString now, task_text = trim (taskInput_value s), completed = False,
             createdAt = timeLabel\<rparr> # tasks s)"
    by (simp add: addTask_def Let_def saveToLocalStorage_def)
  have 2: "map (\<lambda>t. (task_id t, task_text t, createdAt t)) (tasks (toggleTask taskId s)) =
       map (\<lambda>t. (task_id t, task_text t, createdAt t)) (tasks s)"
    by (simp add: toggleTask_def saveToLocalStorage_def toggle_found_fields split: option.split)
  have 3: "tasks (deleteTask taskId s) = filter (\<lambda>t. task_id t \<noteq> taskId) (tasks s)"
    by (simp add: deleteTask_def saveToLocalStorage_def)
  have 4: "tasks (clearCompleted s) = filter (\<lambda>t. \<not> completed t) (tasks s)"
    by (simp add: clearCompleted_def saveToLocalStorage_def)
  have 5: "tasks (setFilter f s) = tasks s"
    by (simp add: setFilter_def)
  have 6: "subseq (tasks (deleteTask taskId s)) (tasks s)"
    by (simp add: 3)
  have 7: "subseq (tasks (clearCompleted s)) (tasks s)"
    by (simp add: 4)
  show ?thesis using 1 2 3 4 5 6 7 by blast
qed

theorem text_stored_trimmed_witness:
  "tasks (addTask 1700000000000 (js ''10:30'') demo) =
     [\<lparr>task_id = js ''1700000000000'', task_text = js ''Buy milk'', completed = False, createdAt = js ''10:30''\<rparr>,
      \<lparr>task_id = js ''7'', task_text = js ''x'', completed = True, createdAt = js ''09:00''\<rparr>]
   \<and> taskInput_value added = []
   \<and> tasks (addTask 1700000000001 (js ''10:30'') added) = tasks added
   \<and> map (\<lambda>t. (task_id t, task_text t, createdAt t)) (tasks (toggleTask (js ''7'') added)) =
       [(js ''1700000000000'', js ''Buy milk'', js ''10:30''), (js ''7'', js ''x'', js ''09:00'')]
   \<and> tasks (deleteTask (js ''7'') added) =
       [\<lparr>task_id = js ''1700000000000'', task_text = js ''Buy milk'', completed = False, createdAt = js ''10:30''\<rparr>]
   \<and> tasks (clearCompleted added) =
       [\<lparr>task_id = js ''1700000000000'', task_text = js ''Buy milk'', completed = False, createdAt = js ''10:30''\<rparr>]
   \<and> tasks (setFilter (js ''active'') added) = tasks added"
proof -
  have a: "tasks (addTask 1700000000000 (js ''10:30'') demo) =
     [\<lparr>task_id = js ''1700000000000'', task_text = js ''Buy milk'', completed = False, createdAt = js ''10:30''\<rparr>,
      \<lparr>task_id = js ''7'', task_text = js ''x'', completed = True, createdAt = js ''09:00''\<rparr>]"
    using text_stored_trimmed [of 1700000000000 "js ''10:30''" demo]
    by (simp add: trim_demo toString_1700000000000) (simp add: demo_def js_def)
  have b: "tasks (addTask 1700000000001 (js ''10:30'') added) = tasks added"
    using text_stored_trimmed [of 1700000000001 "js ''10:30''" added]
    by (simp add: input_added trim_def)
  have c: "map (\<lambda>t. (task_id t, task_text t, createdAt t)) (tasks (toggleTask (js ''7'') added)) =
       [(js ''1700000000000'', js ''Buy milk'', js ''10:30''), (js ''7'', js ''x'', js ''09:00'')]"
    using text_stored_trimmed [of _ _ added "js ''7''"] by (simp add: tasks_added)
  have d: "tasks (deleteTask (js ''7'') added) =
       [\<lparr>task_id = js ''1700000000000'', task_text = js ''Buy milk'', completed = False, createdAt = js ''10:30''\<rparr>]"
    using text_stored_trimmed [of _ _ added "js ''7''"] by (simp add: tasks_added) (simp add: js_def)
  have e: "tasks (clearCompleted added) =
       [\<lparr>task_id = js ''1700000000000'', task_text = js ''Buy milk'', completed = False, createdAt = js ''10:30''\<rparr>]"
    using text_stored_trimmed [of _ _ added] by (simp add: tasks_added)
  have f: "tasks (setFilter (js ''active'') added) = tasks added"
    using text_stored_trimmed [of _ _ added _ "js ''active''"] by simp
  show ?thesis using a b c d e f input_added by blast
qed

theorem text_verbatim_counterexample:
  "taskInput_value demo = js '' Buy milk ''
   \<and> trim (taskInput_value demo) \<noteq> []
   \<and> task_text (hd (tasks (addTask 1700000000000 (js ''10:30'') demo))) = js ''Buy milk''
   \<and> task_text (hd (tasks (addTask 1700000000000 (js ''10:30'') demo))) \<noteq> taskInput_value demo"
proof -
  have v: "taskInput_value demo = js '' Buy milk ''"
    by (simp add: demo_def)
  have h: "trim (taskInput_value demo) \<noteq> []"
    by (simp add: trim_demo) (simp add: js_def)
  have "task_text (hd (tasks (addTask 1700000000000 (js ''10:30'') demo))) = js ''Buy milk''"
    using h by (simp add: addTask_def Let_def saveToLocalStorage_def trim_demo)
  moreover have "js ''Buy milk'' \<noteq> js '' Buy milk ''"
    by (simp add: js_def)
  ultimately show ?thesis using v h by simp
qed

text \<open>
  C5: under each of the filters \<open>all\<close>, \<open>active\<close> and \<open>completed\<close>, every task
  of the filtered view satisfies the filter's predicate, every task of the unfiltered list
  that satisfies it is in the view, and the view is a subsequence of the unfiltered list:
  the \<open>all\<close> view is the list itself, the \<open>active\<close> view its tasks that are not
  completed and the \<open>completed\<close> view its completed tasks, in list order. The
  \<open>active\<close> and the \<open>completed\<close> view share no task and together hold the tasks of the
  list, which are those of the \<open>all\<close> view.
\<close>

theorem filter_view:
  assumes "f = js ''all'' \<or> f = js ''active'' \<or> f = js ''completed''"
  shows "(\<forall>t\<in>set (getFilteredTasks (setFilter f s)).
            (f = js ''active'' \<longrightarrow> \<not> completed t) \<and> (f = js ''completed'' \<longrightarrow> completed t))
         \<and> (\<forall>t\<in>set (tasks s).
              (f = js ''active'' \<longrightarrow> \<not> completed t) \<and> (f = js ''completed'' \<longrightarrow> completed t) \<longrightarrow>
              t \<in> set (getFilteredTasks (setFilter f s)))
         \<and> subseq (getFilteredTasks (setFilter f s)) (tasks s)
         \<and> getFilteredTasks (setFilter (js ''all'') s) = tasks s
         \<and> getFilteredTasks (setFilter (js ''active'') s) =
             filter (\<lambda>t. \<not> completed t) (tasks s)
         \<and> getFilteredTasks (setFilter (js ''completed'') s) =
             filter (\<lambda>t. completed t) (tasks s)
         \<and> set (getFilteredTasks (setFilter (js ''active'') s)) \<inter>
             set (getFilteredTasks (setFilter (js ''completed'') s)) = {}
         \<and> set (getFilteredTasks (setFilter (js ''active'') s)) \<union>
             set (getFilteredTasks (setFilter (js ''completed'') s)) = set (tasks s)
         \<and> set (getFilteredTasks (setFilter (js ''active'') s)) \<union>
             set (getFilteredTasks (setFilter (js ''completed'') s)) =
             set (getFilteredTasks (setFilter (js ''all'') s))"
proof -
  have ne: "js ''active'' \<noteq> js ''completed''" "js ''all'' \<noteq> js ''active''"
    "js ''all'' \<noteq> js ''completed''"
    by (simp_all add: js_def)
  have a: "getFilteredTasks (setFilter (js ''active'') s) = filter (\<lambda>t. \<not> completed t) (tasks s)"
    by (simp add: getFilteredTasks_def setFilter_def)
  have c: "getFilteredTasks (setFilter (js ''completed'') s) = filter (\<lambda>t. completed t) (tasks s)"
    using ne by (simp add: getFilteredTasks_def setFilter_def)
  have l: "getFilteredTasks (setFilter (js ''all'') s) = tasks s"
    using ne by (simp add: getFilteredTasks_def setFilter_def)
  have 1: "\<forall>t\<in>set (getFilteredTasks (setFilter f s)).
            (f = js ''active'' \<longrightarrow> \<not> completed t) \<and> (f = js ''completed'' \<longrightarrow> completed t)"
    using assms a c l ne by auto
  have 2: "\<forall>t\<in>set (tasks s).
              (f = js ''active'' \<longrightarrow> \<not> completed t) \<and> (f = js ''completed'' \<longrightarrow> completed t) \<longrightarrow>
              t \<in> set (getFilteredTasks (setFilter f s))"
    using assms a c l ne by auto
  have 3: "subseq (getFilteredTasks (setFilter f s)) (tasks s)"
    using assms a c l by auto
  have 4: "set (filter (\<lambda>t. \<not> completed t) (tasks s)) \<inter> set (filter (\<lambda>t. completed t) (tasks s)) = {}"
    by auto
  have 5: "set (filter (\<lambda>t. \<not> completed t) (tasks s)) \<union> set (filter (\<lambda>t. completed t) (tasks s)) =
           set (tasks s)"
    by auto
  show ?thesis using 1 2 3 4 5 a c l by (simp only: a c l simp_thms)
qed

theorem filter_view_witness:
  "getFilteredTasks (setFilter (js ''all'') mixed) = tasks mixed
   \<and> getFilteredTasks (setFilter (js ''active'') mixed) =
     [\<lparr>task_id = js ''9'', task_text = js ''a'', completed = False, createdAt = js ''09:02''\<rparr>,
      \<lparr>task_id = js ''7'', task_text = js ''c'', completed = False, createdAt = js ''09:00''\<rparr>]
   \<and> getFilteredTasks (setFilter (js ''completed'') mixed) =
     [\<lparr>task_id = js ''8'', task_text = js ''b'', completed = True, createdAt = js ''09:01''\<rparr>]
   \<and> subseq (getFilteredTasks (setFilter (js ''completed'') mixed)) (tasks mixed)
   \<and> set (getFilteredTasks (setFilter (js ''active'') mixed)) \<inter>
       set (getFilteredTasks (setFilter (js ''completed'') mixed)) = {}
   \<and> set (getFilteredTasks (setFilter (js ''active'') mixed)) \<union>
       set (getFilteredTasks (setFilter (js ''completed'') mixed)) = set (tasks mixed)"
proof -
  have h: "js ''completed'' = js ''all'' \<or> js ''completed'' = js ''active'' \<or>
           js ''completed'' = js ''completed''"
    by simp
  have t: "tasks mixed =
     [\<lparr>task_id = js ''9'', task_text = js ''a'', completed = False, createdAt = js ''09:02''\<rparr>,
      \<lparr>task_id = js ''8'', task_text = js ''b'', completed = True, createdAt = js ''09:01''\<rparr>,
      \<lparr>task_id = js ''7'', task_text = js ''c'', completed = False, createdAt = js ''09:00''\<rparr>]"
    by (simp add: mixed_def)
  note v = filter_view [OF h, of mixed]
  have a: "getFilteredTasks (setFilter (js ''active'') mixed) =
     [\<lparr>task_id = js ''9'', task_text = js ''a'', completed = False, createdAt = js ''09:02''\<rparr>,
      \<lparr>task_id = js ''7'', task_text = js ''c'', completed = False, createdAt = js ''09:00''\<rparr>]"
    using v by (simp add: t)
  have c: "getFilteredTasks (setFilter (js ''completed'') mixed) =
     [\<lparr>task_id = js ''8'', task_text = js ''b'', completed = True, createdAt = js ''09:01''\<rparr>]"
    using v by (simp add: t)
  show ?thesis using v a c by blast
qed

text \<open>
  C6: the total count is the length of the unfiltered list and the completed count is
  the number of its completed tasks, whatever the current filter is; so are the two texts
  \<open>updateStats\<close> writes.
\<close>

theorem stats_unfiltered:
  "total_count (setFilter f s) = length (tasks s)
   \<and> completed_count (setFilter f s) = length (filter (\<lambda>t. completed t) (tasks s))
   \<and> updateStats (setFilter f s) = updateStats s"
  by (simp add: total_count_def completed_count_def updateStats_def setFilter_def)

text \<open>
  C7: a constructor that finds in \<open>localStorage\<close> what \<open>saveToLocalStorage\<close> wrote
  for a state returns with the task list of that state: the same tasks in the same order,
  each with the same four fields. The filter of the new state is \<open>all\<close>.
\<close>

theorem persistence_round_trip:
  "constructor \<lparr>taskInput_value = v, taskInput_focused = b,
       localStorage_todoTasks = localStorage_todoTasks (saveToLocalStorage s)\<rparr> =
     Ready \<lparr>taskInput_value = v, taskInput_focused = b,
       localStorage_todoTasks = Some (JSON_stringify (tasks s)),
       tasks = tasks s, currentFilter = js ''all''\<rparr>"
proof -
  have "localStorage_todoTasks (saveToLocalStorage s) = Some (JSON_stringify (tasks s))"
    by (simp add: saveToLocalStorage_def)
  then show ?thesis
    unfolding constructor_def
    by (simp add: JSON_parse_stringify those_tasks)
qed

text \<open>
  C8: when the trimmed input is empty, \<open>addTask\<close> only focuses the input: the
  task list, the total count and the stored item are unchanged.
\<close>

theorem addTask_empty_noop:
  assumes "trim (taskInput_value s) = []"
  shows "addTask now timeLabel s = s\<lparr>taskInput_focused := True\<rparr>
         \<and> tasks (addTask now timeLabel s) = tasks s
         \<and> total_count (addTask now timeLabel s) = total_count s
         \<and> localStorage_todoTasks (addTask now timeLabel s) = localStorage_todoTasks s"
  using assms by (simp add: addTask_def total_count_def)

theorem addTask_empty_noop_witness:
  "trim (taskInput_value blank_input) = []
   \<and> addTask 1700000000000 (js ''10:30'') blank_input = blank_input\<lparr>taskInput_focused := True\<rparr>
   \<and> tasks (addTask 1700000000000 (js ''10:30'') blank_input) = tasks blank_input
   \<and> total_count (addTask 1700000000000 (js ''10:30'') blank_input) = total_count blank_input
   \<and> localStorage_todoTasks (addTask 1700000000000 (js ''10:30'') blank_input) =
       localStorage_todoTasks blank_input"
proof -
  have h: "trim (taskInput_value blank_input) = []"
    by (simp add: blank_input_def trim_def js_def isWhiteSpace_def)
  show ?thesis
    using h addTask_empty_noop [OF h, of 1700000000000 "js ''10:30''"] by blast
qed

text \<open>
  C9: for an id that no task of the list has, \<open>toggleTask\<close> leaves the whole state
  as it is and \<open>deleteTask\<close> leaves the task list as it is.
\<close>

theorem unknown_id_noop:
  assumes "taskId \<notin> task_id ` set (tasks s)"
  shows "toggleTask taskId s = s \<and> tasks (deleteTask taskId s) = tasks s"
proof -
  have "find (\<lambda>t. task_id t = taskId) (tasks s) = None"
    using assms by (rule find_absent)
  moreover have "filter (\<lambda>t. task_id t \<noteq> taskId) (tasks s) = tasks s"
    using assms by (auto simp: filter_id_conv)
  ultimately show ?thesis
    by (simp add: toggleTask_def deleteTask_def saveToLocalStorage_def)
qed

theorem unknown_id_noop_witness:
  "js ''8'' \<notin> task_id ` set (tasks demo)
   \<and> toggleTask (js ''8'') demo = demo \<and> tasks (deleteTask (js ''8'') demo) = tasks demo"
proof -
  have h: "js ''8'' \<notin> task_id ` set (tasks demo)"
    by (simp add: demo_def js_def)
  show ?thesis using h unknown_id_noop [OF h] by blast
qed

text \<open>
  C10: when several tasks share an id, \<open>toggleTask\<close> flips \<open>completed\<close> of the
  first of them in list order and changes no other task, and \<open>deleteTask\<close> removes every
  task with the id.
\<close>

theorem duplicate_ids_toggle_delete:
  assumes "tasks s = xs @ t # ys" and "\<forall>x\<in>set xs. task_id x \<noteq> task_id t"
  shows "tasks (toggleTask (task_id t) s) = xs @ t\<lparr>completed := \<not> completed t\<rparr> # ys
         \<and> tasks (deleteTask (task_id t) s) = filter (\<lambda>u. task_id u \<noteq> task_id t) (xs @ ys)
         \<and> task_id t \<notin> task_id ` set (tasks (deleteTask (task_id t) s))"
proof -
  have "task_id t \<in> task_id ` set (tasks s)"
    using assms(1) by simp
  then obtain u where "find (\<lambda>x. task_id x = task_id t) (tasks s) = Some u"
    using find_present by blast
  then have "tasks (toggleTask (task_id t) s) = toggle_found (task_id t) (tasks s)"
    by (simp add: toggleTask_def saveToLocalStorage_def)
  then have "tasks (toggleTask (task_id t) s) = xs @ t\<lparr>completed := \<not> completed t\<rparr> # ys"
    using assms by (simp add: toggle_found_first)
  moreover have "tasks (deleteTask (task_id t) s) = filter (\<lambda>u. task_id u \<noteq> task_id t) (xs @ ys)"
    using assms(1) by (simp add: deleteTask_def saveToLocalStorage_def)
  ultimately show ?thesis by auto
qed

theorem duplicate_ids_toggle_delete_witness:
  "tasks (toggleTask (js ''7'') twins) =
     [\<lparr>task_id = js ''9'', task_text = js ''a'', completed = False, createdAt = js ''09:01''\<rparr>,
      \<lparr>task_id = js ''7'', task_text = js ''b'', completed = True, createdAt = js ''09:00''\<rparr>,
      \<lparr>task_id = js ''7'', task_text = js ''c'', completed = False, createdAt = js ''09:00''\<rparr>]
   \<and> tasks (deleteTask (js ''7'') twins) =
     [\<lparr>task_id = js ''9'', task_text = js ''a'', completed = False, createdAt = js ''09:01''\<rparr>]"
proof -
  let ?a = "\<lparr>task_id = js ''9'', task_text = js ''a'', completed = False, createdAt = js ''09:01''\<rparr>"
  let ?b = "\<lparr>task_id = js ''7'', task_text = js ''b'', completed = False, createdAt = js ''09:00''\<rparr>"
  let ?c = "\<lparr>task_id = js ''7'', task_text = js ''c'', completed = False, createdAt = js ''09:00''\<rparr>"
  have 1: "tasks twins = [?a] @ ?b # [?c]"
    by (simp add: twins_def)
  have 2: "\<forall>x\<in>set [?a]. task_id x \<noteq> task_id ?b"
    by (simp add: js_def)
  show ?thesis
    using duplicate_ids_toggle_delete [OF 1 2] by (simp add: js_def)
qed

end
